theory Spec2Isabelle
  imports Complex_Main "HOL-Library.Numeral_Type"
begin

section \<open>Pipal: the Problem interface and its function-handle wrapper\<close>

text \<open>
  This theory embeds \<^verbatim>\<open>include/Pipal/Problem.hh\<close>: the abstract class template
  \<^verbatim>\<open>Problem<Real, N, M>\<close> and its realisation \<^verbatim>\<open>ProblemWrapper<Real, N, M>\<close>, which stores
  six \<^verbatim>\<open>std::function\<close> handles and forwards each evaluation to the matching handle.

  The template parameters become type parameters: \<open>'real\<close> for \<^verbatim>\<open>Real\<close>, and two types
  \<open>'n\<close> and \<open>'m\<close> whose cardinalities are the dimensions \<^verbatim>\<open>N\<close> and \<^verbatim>\<open>M\<close> (the numeral
  types of the library: \<open>CARD(2) = 2\<close>). The sort \<open>finite\<close> on
  \<open>'n\<close> and \<open>'m\<close> stands for the two \<^verbatim>\<open>static_assert\<close>s \<^verbatim>\<open>N > 0\<close> and \<^verbatim>\<open>M > 0\<close>: a
  finite type has a positive cardinality. The third \<^verbatim>\<open>static_assert\<close>, that \<^verbatim>\<open>Real\<close>
  is a floating-point type, has no counterpart: \<open>'real\<close> stands for any type of scalars,
  since the wrapper only passes scalars on.
\<close>

subsection \<open>Eigen's fixed-size vectors and matrices\<close>

text \<open>
  \<^verbatim>\<open>Eigen::Vector<Real, N>\<close> holds exactly \<^verbatim>\<open>N\<close> coefficients and
  \<^verbatim>\<open>Eigen::Matrix<Real, R, C>\<close> exactly \<^verbatim>\<open>R\<close> rows of \<^verbatim>\<open>C\<close> coefficients: the sizes belong
  to the type. Both are subtypes of lists here, so that every value of the type has the
  shape the type names. A matrix is given by its rows.
\<close>

typedef ('real, 'n) Vector = "{xs :: 'real list. length xs = CARD('n)}"
  morphisms coeffs Vector
  by (rule exI [of _ "replicate CARD('n) undefined"]) simp

typedef ('real, 'r, 'c) Matrix =
  "{rs :: 'real list list. length rs = CARD('r) \<and> list_all (\<lambda>r. length r = CARD('c)) rs}"
  morphisms coeff_rows Matrix
  by (rule exI [of _ "replicate CARD('r) (replicate CARD('c) undefined)"])
    (simp add: list_all_length)

subsection \<open>The standard library's function wrapper\<close>

text \<open>
  A \<^verbatim>\<open>std::function<R(Args...)>\<close> is either empty (it was built from \<^verbatim>\<open>nullptr\<close>) or
  holds a callable target. The arguments of the target are taken as one value, a pair
  for the two-argument handles. Its call operator throws \<^verbatim>\<open>std::bad_function_call\<close> when
  the wrapper is empty and otherwise returns what the target returns ([func.wrap.func.inv]
  of the C++ standard). A target is a function of its arguments here; targets that change
  at a call, or throw, are the subject of the second model further down.
\<close>

datatype exception = bad_function_call

datatype ('args, 'ret) std_function = nullptr | callable "'args \<Rightarrow> 'ret"

definition invoke :: "('args, 'ret) std_function \<Rightarrow> 'args \<Rightarrow> exception + 'ret" where
  "invoke f args = (case f of nullptr \<Rightarrow> Inl bad_function_call | callable g \<Rightarrow> Inr (g args))"

subsection \<open>The types of class Problem and of its wrapper\<close>

type_synonym ('real, 'n, 'm) VectorN = "('real, 'n) Vector"
type_synonym ('real, 'n, 'm) VectorM = "('real, 'm) Vector"
type_synonym ('real, 'n, 'm) MatrixH = "('real, 'n, 'n) Matrix"
type_synonym ('real, 'n, 'm) MatrixJ = "('real, 'm, 'n) Matrix"

type_synonym ('real, 'n, 'm) ObjectiveFunc =
  "(('real, 'n, 'm) VectorN, 'real) std_function"
type_synonym ('real, 'n, 'm) ObjectiveGradientFunc =
  "(('real, 'n, 'm) VectorN, ('real, 'n, 'm) VectorN) std_function"
type_synonym ('real, 'n, 'm) ObjectiveHessianFunc =
  "(('real, 'n, 'm) VectorN, ('real, 'n, 'm) MatrixH) std_function"
type_synonym ('real, 'n, 'm) ConstraintsFunc =
  "(('real, 'n, 'm) VectorN, ('real, 'n, 'm) VectorM) std_function"
type_synonym ('real, 'n, 'm) ConstraintsJacobianFunc =
  "(('real, 'n, 'm) VectorN \<times> ('real, 'n, 'm) VectorM, ('real, 'n, 'm) MatrixJ) std_function"
type_synonym ('real, 'n, 'm) LagrangianHessianFunc =
  "(('real, 'n, 'm) VectorN \<times> ('real, 'n, 'm) VectorM, ('real, 'n, 'm) MatrixH) std_function"

text \<open>
  The object state of a \<^verbatim>\<open>ProblemWrapper\<close>: its six private members. The base class
  \<^verbatim>\<open>Problem\<close> has no data members.
\<close>

record ('real, 'n, 'm) ProblemWrapper =
  m_objective :: "('real, 'n::finite, 'm::finite) ObjectiveFunc"
  m_objective_gradient :: "('real, 'n, 'm) ObjectiveGradientFunc"
  m_objective_hessian :: "('real, 'n, 'm) ObjectiveHessianFunc"
  m_constraints :: "('real, 'n, 'm) ConstraintsFunc"
  m_constraints_jacobian :: "('real, 'n, 'm) ConstraintsJacobianFunc"
  m_lagrangian_hessian :: "('real, 'n, 'm) LagrangianHessianFunc"

subsection \<open>Constructors\<close>

text \<open>
  The five-handle constructor has no initialiser for \<^verbatim>\<open>m_objective_hessian\<close>, which
  therefore takes its default member initialiser \<^verbatim>\<open>{nullptr}\<close>. The constructors copy
  the handles they are given without looking at them: an empty handle is stored as it is.
\<close>

definition ProblemWrapper5 ::
  "('real, 'n::finite, 'm::finite) ObjectiveFunc \<Rightarrow> ('real, 'n, 'm) ObjectiveGradientFunc \<Rightarrow>
   ('real, 'n, 'm) ConstraintsFunc \<Rightarrow> ('real, 'n, 'm) ConstraintsJacobianFunc \<Rightarrow>
   ('real, 'n, 'm) LagrangianHessianFunc \<Rightarrow> ('real, 'n, 'm) ProblemWrapper" where
  "ProblemWrapper5 objective' objective_gradient' constraints' constraints_jacobian'
     lagrangian_hessian' =
     \<lparr>m_objective = objective', m_objective_gradient = objective_gradient',
      m_objective_hessian = nullptr, m_constraints = constraints',
      m_constraints_jacobian = constraints_jacobian',
      m_lagrangian_hessian = lagrangian_hessian'\<rparr>"

definition ProblemWrapper6 ::
  "('real, 'n::finite, 'm::finite) ObjectiveFunc \<Rightarrow> ('real, 'n, 'm) ObjectiveGradientFunc \<Rightarrow>
   ('real, 'n, 'm) ObjectiveHessianFunc \<Rightarrow> ('real, 'n, 'm) ConstraintsFunc \<Rightarrow>
   ('real, 'n, 'm) ConstraintsJacobianFunc \<Rightarrow> ('real, 'n, 'm) LagrangianHessianFunc \<Rightarrow>
   ('real, 'n, 'm) ProblemWrapper" where
  "ProblemWrapper6 objective' objective_gradient' objective_hessian' constraints'
     constraints_jacobian' lagrangian_hessian' =
     \<lparr>m_objective = objective', m_objective_gradient = objective_gradient',
      m_objective_hessian = objective_hessian', m_constraints = constraints',
      m_constraints_jacobian = constraints_jacobian',
      m_lagrangian_hessian = lagrangian_hessian'\<rparr>"

subsection \<open>Member functions\<close>

text \<open>
  Each member function takes the object and its arguments and gives back what the call
  returns together with the object after the call. The getter, the setter and the
  evaluation of one operation share one name in the source and are told apart by their
  signatures; here the getter and the setter carry a suffix and the evaluation override
  keeps the name.
\<close>

abbreviation returned :: "'a \<times> 's \<Rightarrow> 'a" where
  "returned \<equiv> fst"

abbreviation after :: "'a \<times> 's \<Rightarrow> 's" where
  "after \<equiv> snd"

definition objective_get ::
  "('real, 'n::finite, 'm::finite) ProblemWrapper \<Rightarrow>
   ('real, 'n, 'm) ObjectiveFunc \<times> ('real, 'n, 'm) ProblemWrapper" where
  "objective_get this = (m_objective this, this)"

definition objective_set ::
  "('real, 'n::finite, 'm::finite) ProblemWrapper \<Rightarrow> ('real, 'n, 'm) ObjectiveFunc \<Rightarrow>
   unit \<times> ('real, 'n, 'm) ProblemWrapper" where
  "objective_set this objective' = ((), this\<lparr>m_objective := objective'\<rparr>)"

definition objective_gradient_get ::
  "('real, 'n::finite, 'm::finite) ProblemWrapper \<Rightarrow>
   ('real, 'n, 'm) ObjectiveGradientFunc \<times> ('real, 'n, 'm) ProblemWrapper" where
  "objective_gradient_get this = (m_objective_gradient this, this)"

definition objective_gradient_set ::
  "('real, 'n::finite, 'm::finite) ProblemWrapper \<Rightarrow> ('real, 'n, 'm) ObjectiveGradientFunc \<Rightarrow>
   unit \<times> ('real, 'n, 'm) ProblemWrapper" where
  "objective_gradient_set this objective_gradient' =
     ((), this\<lparr>m_objective_gradient := objective_gradient'\<rparr>)"

definition objective_hessian_get ::
  "('real, 'n::finite, 'm::finite) ProblemWrapper \<Rightarrow>
   ('real, 'n, 'm) ObjectiveHessianFunc \<times> ('real, 'n, 'm) ProblemWrapper" where
  "objective_hessian_get this = (m_objective_hessian this, this)"

definition objective_hessian_set ::
  "('real, 'n::finite, 'm::finite) ProblemWrapper \<Rightarrow> ('real, 'n, 'm) ObjectiveHessianFunc \<Rightarrow>
   unit \<times> ('real, 'n, 'm) ProblemWrapper" where
  "objective_hessian_set this objective_hessian' =
     ((), this\<lparr>m_objective_hessian := objective_hessian'\<rparr>)"

definition constraints_get ::
  "('real, 'n::finite, 'm::finite) ProblemWrapper \<Rightarrow>
   ('real, 'n, 'm) ConstraintsFunc \<times> ('real, 'n, 'm) ProblemWrapper" where
  "constraints_get this = (m_constraints this, this)"

definition constraints_set ::
  "('real, 'n::finite, 'm::finite) ProblemWrapper \<Rightarrow> ('real, 'n, 'm) ConstraintsFunc \<Rightarrow>
   unit \<times> ('real, 'n, 'm) ProblemWrapper" where
  "constraints_set this constraints' = ((), this\<lparr>m_constraints := constraints'\<rparr>)"

definition constraints_jacobian_get ::
  "('real, 'n::finite, 'm::finite) ProblemWrapper \<Rightarrow>
   ('real, 'n, 'm) ConstraintsJacobianFunc \<times> ('real, 'n, 'm) ProblemWrapper" where
  "constraints_jacobian_get this = (m_constraints_jacobian this, this)"

definition constraints_jacobian_set ::
  "('real, 'n::finite, 'm::finite) ProblemWrapper \<Rightarrow> ('real, 'n, 'm) ConstraintsJacobianFunc \<Rightarrow>
   unit \<times> ('real, 'n, 'm) ProblemWrapper" where
  "constraints_jacobian_set this constraints_jacobian' =
     ((), this\<lparr>m_constraints_jacobian := constraints_jacobian'\<rparr>)"

definition lagrangian_hessian_get ::
  "('real, 'n::finite, 'm::finite) ProblemWrapper \<Rightarrow>
   ('real, 'n, 'm) LagrangianHessianFunc \<times> ('real, 'n, 'm) ProblemWrapper" where
  "lagrangian_hessian_get this = (m_lagrangian_hessian this, this)"

definition lagrangian_hessian_set ::
  "('real, 'n::finite, 'm::finite) ProblemWrapper \<Rightarrow> ('real, 'n, 'm) LagrangianHessianFunc \<Rightarrow>
   unit \<times> ('real, 'n, 'm) ProblemWrapper" where
  "lagrangian_hessian_set this lagrangian_hessian' =
     ((), this\<lparr>m_lagrangian_hessian := lagrangian_hessian'\<rparr>)"

text \<open>The six evaluation overrides of the interface of class \<^verbatim>\<open>Problem\<close>.\<close>

definition objective ::
  "('real, 'n::finite, 'm::finite) ProblemWrapper \<Rightarrow> ('real, 'n, 'm) VectorN \<Rightarrow>
   (exception + 'real) \<times> ('real, 'n, 'm) ProblemWrapper" where
  "objective this x = (invoke (m_objective this) x, this)"

definition objective_gradient ::
  "('real, 'n::finite, 'm::finite) ProblemWrapper \<Rightarrow> ('real, 'n, 'm) VectorN \<Rightarrow>
   (exception + ('real, 'n, 'm) VectorN) \<times> ('real, 'n, 'm) ProblemWrapper" where
  "objective_gradient this x = (invoke (m_objective_gradient this) x, this)"

definition objective_hessian ::
  "('real, 'n::finite, 'm::finite) ProblemWrapper \<Rightarrow> ('real, 'n, 'm) VectorN \<Rightarrow>
   (exception + ('real, 'n, 'm) MatrixH) \<times> ('real, 'n, 'm) ProblemWrapper" where
  "objective_hessian this x = (invoke (m_objective_hessian this) x, this)"

definition constraints ::
  "('real, 'n::finite, 'm::finite) ProblemWrapper \<Rightarrow> ('real, 'n, 'm) VectorN \<Rightarrow>
   (exception + ('real, 'n, 'm) VectorM) \<times> ('real, 'n, 'm) ProblemWrapper" where
  "constraints this x = (invoke (m_constraints this) x, this)"

definition constraints_jacobian ::
  "('real, 'n::finite, 'm::finite) ProblemWrapper \<Rightarrow> ('real, 'n, 'm) VectorN \<Rightarrow>
   ('real, 'n, 'm) VectorM \<Rightarrow>
   (exception + ('real, 'n, 'm) MatrixJ) \<times> ('real, 'n, 'm) ProblemWrapper" where
  "constraints_jacobian this x z = (invoke (m_constraints_jacobian this) (x, z), this)"

definition lagrangian_hessian ::
  "('real, 'n::finite, 'm::finite) ProblemWrapper \<Rightarrow> ('real, 'n, 'm) VectorN \<Rightarrow>
   ('real, 'n, 'm) VectorM \<Rightarrow>
   (exception + ('real, 'n, 'm) MatrixH) \<times> ('real, 'n, 'm) ProblemWrapper" where
  "lagrangian_hessian this x z = (invoke (m_lagrangian_hessian this) (x, z), this)"

subsection \<open>Copies\<close>

text \<open>
  \<^verbatim>\<open>ProblemWrapper\<close> declares no copy constructor, so the implicit one copies the base
  (whose copy constructor is defaulted and which has no members) and then each of the
  six handles. Copying a \<^verbatim>\<open>std::function\<close> copies its target, or gives an empty wrapper
  when the source is empty.
\<close>

definition ProblemWrapper_copy ::
  "('real, 'n::finite, 'm::finite) ProblemWrapper \<Rightarrow> ('real, 'n, 'm) ProblemWrapper" where
  "ProblemWrapper_copy other =
     \<lparr>m_objective = m_objective other, m_objective_gradient = m_objective_gradient other,
      m_objective_hessian = m_objective_hessian other, m_constraints = m_constraints other,
      m_constraints_jacobian = m_constraints_jacobian other,
      m_lagrangian_hessian = m_lagrangian_hessian other\<rparr>"

text \<open>
  Several instances at once: a store gives the object held by each variable (variables
  are numbered). Every object holds its six handles itself, as the members are declared
  by value. Constructing a copy writes the new object to its variable; a member call on
  a variable runs the member function on that variable's object and writes the object
  back.
\<close>

type_synonym ('real, 'n, 'm) store = "nat \<Rightarrow> ('real, 'n, 'm) ProblemWrapper"

definition copy_construct ::
  "('real, 'n::finite, 'm::finite) store \<Rightarrow> nat \<Rightarrow> nat \<Rightarrow> ('real, 'n, 'm) store" where
  "copy_construct \<sigma> dst src = \<sigma>(dst := ProblemWrapper_copy (\<sigma> src))"

definition member_call ::
  "('real, 'n::finite, 'm::finite) store \<Rightarrow> nat \<Rightarrow>
   (('real, 'n, 'm) ProblemWrapper \<Rightarrow> 'a \<times> ('real, 'n, 'm) ProblemWrapper) \<Rightarrow>
   'a \<times> ('real, 'n, 'm) store" where
  "member_call \<sigma> p f = (returned (f (\<sigma> p)), \<sigma>(p := after (f (\<sigma> p))))"

subsection \<open>The example problem\<close>

text \<open>
  Modelled from the spec: the five function handles of the specification's example
  scenario, which are the input of that scenario and not part of \<^verbatim>\<open>Problem.hh\<close>:
  \<open>N = 2\<close>, \<open>M = 2\<close>, objective \<open>x\<^sub>1\<^sup>2 + x\<^sub>2\<^sup>2\<close>, gradient \<open>(2 x\<^sub>1, 2 x\<^sub>2)\<close>, constraints
  \<open>(x\<^sub>1 - 1, x\<^sub>2 - 1)\<close>, the identity as Jacobian and twice the identity as Hessian of
  the Lagrangian. \<^verbatim>\<open>Real\<close> is \<^verbatim>\<open>double\<close> there and \<^typ>\<open>real\<close> here: the scenario evaluates
  at \<open>(1, 1)\<close>, where every operand and every result (\<open>0\<close>, \<open>1\<close>, \<open>2\<close>) is a small
  integer, on which binary floating-point arithmetic is exact and so agrees with the
  arithmetic of the reals. Coefficients are numbered from \<open>0\<close>, as in Eigen.
\<close>

definition example_objective :: "(real, 2, 2) VectorN \<Rightarrow> real" where
  "example_objective x = (coeffs x ! 0)\<^sup>2 + (coeffs x ! 1)\<^sup>2"

definition example_objective_gradient :: "(real, 2, 2) VectorN \<Rightarrow> (real, 2, 2) VectorN" where
  "example_objective_gradient x = Vector [2 * (coeffs x ! 0), 2 * (coeffs x ! 1)]"

definition example_constraints :: "(real, 2, 2) VectorN \<Rightarrow> (real, 2, 2) VectorM" where
  "example_constraints x = Vector [coeffs x ! 0 - 1, coeffs x ! 1 - 1]"

definition example_constraints_jacobian ::
  "(real, 2, 2) VectorN \<times> (real, 2, 2) VectorM \<Rightarrow> (real, 2, 2) MatrixJ" where
  "example_constraints_jacobian xz = Matrix [[1, 0], [0, 1]]"

definition example_lagrangian_hessian ::
  "(real, 2, 2) VectorN \<times> (real, 2, 2) VectorM \<Rightarrow> (real, 2, 2) MatrixH" where
  "example_lagrangian_hessian xz = Matrix [[2, 0], [0, 2]]"

definition example_problem :: "(real, 2, 2) ProblemWrapper" where
  "example_problem =
     ProblemWrapper5 (callable example_objective) (callable example_objective_gradient)
       (callable example_constraints) (callable example_constraints_jacobian)
       (callable example_lagrangian_hessian)"

subsection \<open>Targets with state of their own\<close>

text \<open>
  The call operator of \<^verbatim>\<open>std::function\<close> is \<^verbatim>\<open>const\<close>, yet it calls the stored target as
  a non-const object: a function object with data members, or a \<^verbatim>\<open>mutable\<close> lambda,
  may change itself at every call, and a target may throw an exception of its own, which
  the wrapper passes on. The model above leaves both out. This second model of the
  wrapper has them: a target is given by what a call with given arguments produces (a
  value, or the target's own exception) and by the target it has become after that call.
  A function object with state \<open>s\<close> and call operator \<open>step\<close> is such a target, and the
  handles of the first model are the targets that never change and never throw.
\<close>

codatatype ('args, 'out) target =
  Target (produces: "'args \<Rightarrow> 'out") (becomes: "'args \<Rightarrow> ('args, 'out) target")

primcorec function_object ::
  "('s \<Rightarrow> 'args \<Rightarrow> 'out \<times> 's) \<Rightarrow> 's \<Rightarrow> ('args, 'out) target" where
  "produces (function_object step s) = (\<lambda>args. fst (step s args))"
| "becomes (function_object step s) = (\<lambda>args. function_object step (snd (step s args)))"

definition stateless :: "('args \<Rightarrow> 'ret) \<Rightarrow> ('args, 'e + 'ret) target" where
  "stateless f = function_object (\<lambda>(u :: unit) args. (Inr (f args), u)) ()"

datatype ('args, 'out) stateful_function = no_target | has_target "('args, 'out) target"

text \<open>
  Calling a wrapper gives what the call produces and the wrapper after the call, which
  holds the target as the call has left it.
\<close>

definition invoke_st ::
  "('args, 'out) stateful_function \<Rightarrow> 'args \<Rightarrow>
   (exception + 'out) \<times> ('args, 'out) stateful_function" where
  "invoke_st f args =
     (case f of
        no_target \<Rightarrow> (Inl bad_function_call, no_target)
      | has_target t \<Rightarrow> (Inr (produces t args), has_target (becomes t args)))"

text \<open>
  The object state, the six-handle constructor, the getters and the evaluation overrides
  once more, over such handles. A getter returns a copy of the stored wrapper, which
  holds a copy of the target in its current state. An evaluation calls the stored
  wrapper in place, so the object after the call holds the target as the call left it.
\<close>

type_synonym ('real, 'n, 'm, 'e) ObjectiveFunc_st =
  "(('real, 'n, 'm) VectorN, 'e + 'real) stateful_function"
type_synonym ('real, 'n, 'm, 'e) ObjectiveGradientFunc_st =
  "(('real, 'n, 'm) VectorN, 'e + ('real, 'n, 'm) VectorN) stateful_function"
type_synonym ('real, 'n, 'm, 'e) ObjectiveHessianFunc_st =
  "(('real, 'n, 'm) VectorN, 'e + ('real, 'n, 'm) MatrixH) stateful_function"
type_synonym ('real, 'n, 'm, 'e) ConstraintsFunc_st =
  "(('real, 'n, 'm) VectorN, 'e + ('real, 'n, 'm) VectorM) stateful_function"
type_synonym ('real, 'n, 'm, 'e) ConstraintsJacobianFunc_st =
  "(('real, 'n, 'm) VectorN \<times> ('real, 'n, 'm) VectorM, 'e + ('real, 'n, 'm) MatrixJ) stateful_function"
type_synonym ('real, 'n, 'm, 'e) LagrangianHessianFunc_st =
  "(('real, 'n, 'm) VectorN \<times> ('real, 'n, 'm) VectorM, 'e + ('real, 'n, 'm) MatrixH) stateful_function"

record ('real, 'n, 'm, 'e) ProblemWrapper_st =
  m_objective_st :: "('real, 'n::finite, 'm::finite, 'e) ObjectiveFunc_st"
  m_objective_gradient_st :: "('real, 'n, 'm, 'e) ObjectiveGradientFunc_st"
  m_objective_hessian_st :: "('real, 'n, 'm, 'e) ObjectiveHessianFunc_st"
  m_constraints_st :: "('real, 'n, 'm, 'e) ConstraintsFunc_st"
  m_constraints_jacobian_st :: "('real, 'n, 'm, 'e) ConstraintsJacobianFunc_st"
  m_lagrangian_hessian_st :: "('real, 'n, 'm, 'e) LagrangianHessianFunc_st"








definition objective_st ::
  "('real, 'n::finite, 'm::finite, 'e) ProblemWrapper_st \<Rightarrow> ('real, 'n, 'm) VectorN \<Rightarrow>
   (exception + 'e + 'real) \<times> ('real, 'n, 'm, 'e) ProblemWrapper_st" where
  "objective_st this x =
     (returned (invoke_st (m_objective_st this) x),
      this\<lparr>m_objective_st := after (invoke_st (m_objective_st this) x)\<rparr>)"

definition objective_gradient_st ::
  "('real, 'n::finite, 'm::finite, 'e) ProblemWrapper_st \<Rightarrow> ('real, 'n, 'm) VectorN \<Rightarrow>
   (exception + 'e + ('real, 'n, 'm) VectorN) \<times> ('real, 'n, 'm, 'e) ProblemWrapper_st" where
  "objective_gradient_st this x =
     (returned (invoke_st (m_objective_gradient_st this) x),
      this\<lparr>m_objective_gradient_st := after (invoke_st (m_objective_gradient_st this) x)\<rparr>)"

definition objective_hessian_st ::
  "('real, 'n::finite, 'm::finite, 'e) ProblemWrapper_st \<Rightarrow> ('real, 'n, 'm) VectorN \<Rightarrow>
   (exception + 'e + ('real, 'n, 'm) MatrixH) \<times> ('real, 'n, 'm, 'e) ProblemWrapper_st" where
  "objective_hessian_st this x =
     (returned (invoke_st (m_objective_hessian_st this) x),
      this\<lparr>m_objective_hessian_st := after (invoke_st (m_objective_hessian_st this) x)\<rparr>)"

definition constraints_st ::
  "('real, 'n::finite, 'm::finite, 'e) ProblemWrapper_st \<Rightarrow> ('real, 'n, 'm) VectorN \<Rightarrow>
   (exception + 'e + ('real, 'n, 'm) VectorM) \<times> ('real, 'n, 'm, 'e) ProblemWrapper_st" where
  "constraints_st this x =
     (returned (invoke_st (m_constraints_st this) x),
      this\<lparr>m_constraints_st := after (invoke_st (m_constraints_st this) x)\<rparr>)"

definition constraints_jacobian_st ::
  "('real, 'n::finite, 'm::finite, 'e) ProblemWrapper_st \<Rightarrow> ('real, 'n, 'm) VectorN \<Rightarrow> ('real, 'n, 'm) VectorM \<Rightarrow>
   (exception + 'e + ('real, 'n, 'm) MatrixJ) \<times> ('real, 'n, 'm, 'e) ProblemWrapper_st" where
  "constraints_jacobian_st this x z =
     (returned (invoke_st (m_constraints_jacobian_st this) (x, z)),
      this\<lparr>m_constraints_jacobian_st := after (invoke_st (m_constraints_jacobian_st this) (x, z))\<rparr>)"

definition lagrangian_hessian_st ::
  "('real, 'n::finite, 'm::finite, 'e) ProblemWrapper_st \<Rightarrow> ('real, 'n, 'm) VectorN \<Rightarrow> ('real, 'n, 'm) VectorM \<Rightarrow>
   (exception + 'e + ('real, 'n, 'm) MatrixH) \<times> ('real, 'n, 'm, 'e) ProblemWrapper_st" where
  "lagrangian_hessian_st this x z =
     (returned (invoke_st (m_lagrangian_hessian_st this) (x, z)),
      this\<lparr>m_lagrangian_hessian_st := after (invoke_st (m_lagrangian_hessian_st this) (x, z))\<rparr>)"


text \<open>
  A handle of the first model, seen as a handle of the second: its target never changes
  and never throws.
\<close>

definition with_state :: "('args, 'ret) std_function \<Rightarrow> ('args, 'e + 'ret) stateful_function" where
  "with_state f = (case f of nullptr \<Rightarrow> no_target | callable g \<Rightarrow> has_target (stateless g))"

definition ProblemWrapper_with_state ::
  "('real, 'n::finite, 'm::finite) ProblemWrapper \<Rightarrow> ('real, 'n, 'm, 'e) ProblemWrapper_st" where
  "ProblemWrapper_with_state this =
     \<lparr>m_objective_st = with_state (m_objective this),
      m_objective_gradient_st = with_state (m_objective_gradient this),
      m_objective_hessian_st = with_state (m_objective_hessian this),
      m_constraints_st = with_state (m_constraints this),
      m_constraints_jacobian_st = with_state (m_constraints_jacobian this),
      m_lagrangian_hessian_st = with_state (m_lagrangian_hessian this)\<rparr>"



section \<open>Properties\<close>

lemmas getter_defs =
  objective_get_def objective_gradient_get_def objective_hessian_get_def
  constraints_get_def constraints_jacobian_get_def lagrangian_hessian_get_def

lemmas setter_defs =
  objective_set_def objective_gradient_set_def objective_hessian_set_def
  constraints_set_def constraints_jacobian_set_def lagrangian_hessian_set_def

lemmas evaluation_defs =
  objective_def objective_gradient_def objective_hessian_def
  constraints_def constraints_jacobian_def lagrangian_hessian_def

subsection \<open>Calling a function wrapper\<close>

lemma invoke_nullptr: "invoke nullptr args = Inl bad_function_call"
  by (simp add: invoke_def)

lemma invoke_callable: "invoke (callable g) args = Inr (g args)"
  by (simp add: invoke_def)

lemma invoke_throws_iff: "(invoke f args = Inl bad_function_call) = (f = nullptr)"
  by (cases f) (simp_all add: invoke_def)

subsection \<open>Shapes of vectors and matrices\<close>

lemma length_coeffs: "length (coeffs (v :: ('real, 'n) Vector)) = CARD('n)"
  using coeffs [of v] by simp

lemma shape_coeff_rows:
  fixes A :: "('real, 'r, 'c) Matrix"
  shows "length (coeff_rows A) = CARD('r)"
    and "list_all (\<lambda>r. length r = CARD('c)) (coeff_rows A)"
  using coeff_rows [of A] by simp_all

lemma coeffs_Vector:
  "length xs = CARD('n) \<Longrightarrow> coeffs (Vector xs :: ('real, 'n) Vector) = xs"
  by (simp add: Vector_inverse)

lemma coeff_rows_Matrix:
  assumes "length rs = CARD('r)" and "list_all (\<lambda>r. length r = CARD('c)) rs"
  shows "coeff_rows (Matrix rs :: ('real, 'r, 'c) Matrix) = rs"
  using assms by (simp add: Matrix_inverse)

subsection \<open>What each member function returns and leaves behind\<close>

lemma returned_getter:
  "returned (objective_get this) = m_objective this"
  "returned (objective_gradient_get this) = m_objective_gradient this"
  "returned (objective_hessian_get this) = m_objective_hessian this"
  "returned (constraints_get this) = m_constraints this"
  "returned (constraints_jacobian_get this) = m_constraints_jacobian this"
  "returned (lagrangian_hessian_get this) = m_lagrangian_hessian this"
  by (simp_all add: getter_defs)

lemma after_getter:
  "after (objective_get this) = this"
  "after (objective_gradient_get this) = this"
  "after (objective_hessian_get this) = this"
  "after (constraints_get this) = this"
  "after (constraints_jacobian_get this) = this"
  "after (lagrangian_hessian_get this) = this"
  by (simp_all add: getter_defs)

lemma after_setter:
  "after (objective_set this f) = this\<lparr>m_objective := f\<rparr>"
  "after (objective_gradient_set this g) = this\<lparr>m_objective_gradient := g\<rparr>"
  "after (objective_hessian_set this H) = this\<lparr>m_objective_hessian := H\<rparr>"
  "after (constraints_set this c) = this\<lparr>m_constraints := c\<rparr>"
  "after (constraints_jacobian_set this J) = this\<lparr>m_constraints_jacobian := J\<rparr>"
  "after (lagrangian_hessian_set this W) = this\<lparr>m_lagrangian_hessian := W\<rparr>"
  by (simp_all add: setter_defs)

lemma returned_evaluation:
  "returned (objective this x) = invoke (m_objective this) x"
  "returned (objective_gradient this x) = invoke (m_objective_gradient this) x"
  "returned (objective_hessian this x) = invoke (m_objective_hessian this) x"
  "returned (constraints this x) = invoke (m_constraints this) x"
  "returned (constraints_jacobian this x z) = invoke (m_constraints_jacobian this) (x, z)"
  "returned (lagrangian_hessian this x z) = invoke (m_lagrangian_hessian this) (x, z)"
  by (simp_all add: evaluation_defs)

lemma example_point: "coeffs (Vector [1, 1] :: (real, 2) Vector) = [1, 1]"
  by (rule coeffs_Vector) simp

lemma example_problem_members:
  "m_objective example_problem = callable example_objective"
  "m_objective_gradient example_problem = callable example_objective_gradient"
  "m_objective_hessian example_problem = nullptr"
  "m_constraints example_problem = callable example_constraints"
  "m_constraints_jacobian example_problem = callable example_constraints_jacobian"
  "m_lagrangian_hessian example_problem = callable example_lagrangian_hessian"
  by (simp_all add: example_problem_def ProblemWrapper5_def)

subsection \<open>Delegation\<close>

text \<open>
  C1. On a wrapper built by the six-handle constructor, each of the six evaluation
  operations returns what invoking the handle supplied for it returns on the same
  arguments, and nothing else; for handles holding targets \<open>f\<close>, \<open>g\<close>, \<open>H\<close>, \<open>c\<close>, \<open>J\<close>,
  \<open>W\<close> that is the value of the target, unchanged.
\<close>

theorem delegation:
  "(let this = ProblemWrapper6 objective' objective_gradient' objective_hessian'
               constraints' constraints_jacobian' lagrangian_hessian' in
      returned (objective this x) = invoke objective' x \<and>
      returned (objective_gradient this x) = invoke objective_gradient' x \<and>
      returned (objective_hessian this x) = invoke objective_hessian' x \<and>
      returned (constraints this x) = invoke constraints' x \<and>
      returned (constraints_jacobian this x z) = invoke constraints_jacobian' (x, z) \<and>
      returned (lagrangian_hessian this x z) = invoke lagrangian_hessian' (x, z)) \<and>
   (let this = ProblemWrapper6 (callable f) (callable g) (callable H)
               (callable c) (callable J) (callable W) in
      returned (objective this x) = Inr (f x) \<and>
      returned (objective_gradient this x) = Inr (g x) \<and>
      returned (objective_hessian this x) = Inr (H x) \<and>
      returned (constraints this x) = Inr (c x) \<and>
      returned (constraints_jacobian this x z) = Inr (J (x, z)) \<and>
      returned (lagrangian_hessian this x z) = Inr (W (x, z)))"
proof -
  have general: "returned (objective this x) = invoke (m_objective this) x \<and>
      returned (objective_gradient this x) = invoke (m_objective_gradient this) x \<and>
      returned (objective_hessian this x) = invoke (m_objective_hessian this) x \<and>
      returned (constraints this x) = invoke (m_constraints this) x \<and>
      returned (constraints_jacobian this x z) = invoke (m_constraints_jacobian this) (x, z) \<and>
      returned (lagrangian_hessian this x z) = invoke (m_lagrangian_hessian this) (x, z)"
    for this :: "('a, 'b::finite, 'c::finite) ProblemWrapper"
    by (simp add: returned_evaluation)
  show ?thesis
    unfolding Let_def
    by (intro conjI; simp add: general ProblemWrapper6_def invoke_callable)
qed

subsection \<open>Evaluating an operation whose handle is unset\<close>

text \<open>
  C2. On a wrapper built by the five-handle constructor, evaluating \<open>objective_hessian\<close>
  throws \<^verbatim>\<open>std::bad_function_call\<close> at the call and so returns no value, default or
  other. Each of the other five evaluations, the handle supplied for it holding a
  target, does not throw it; so none does in the five-handle form, where the five
  handles are supplied.
\<close>

theorem five_handle_unset_failure:
  "(let this = ProblemWrapper5 objective' objective_gradient' constraints'
               constraints_jacobian' lagrangian_hessian' in
      returned (objective_hessian this x) = Inl bad_function_call \<and>
      (\<forall>H. returned (objective_hessian this x) \<noteq> Inr H) \<and>
      (objective' \<noteq> nullptr \<longrightarrow>
         returned (objective this x) \<noteq> Inl bad_function_call) \<and>
      (objective_gradient' \<noteq> nullptr \<longrightarrow>
         returned (objective_gradient this x) \<noteq> Inl bad_function_call) \<and>
      (constraints' \<noteq> nullptr \<longrightarrow>
         returned (constraints this x) \<noteq> Inl bad_function_call) \<and>
      (constraints_jacobian' \<noteq> nullptr \<longrightarrow>
         returned (constraints_jacobian this x z) \<noteq> Inl bad_function_call) \<and>
      (lagrangian_hessian' \<noteq> nullptr \<longrightarrow>
         returned (lagrangian_hessian this x z) \<noteq> Inl bad_function_call))"
proof -
  let ?w = "ProblemWrapper5 objective' objective_gradient' constraints'
      constraints_jacobian' lagrangian_hessian'"
  have unset: "m_objective_hessian ?w = nullptr"
    by (simp add: ProblemWrapper5_def)
  have stored: "m_objective ?w = objective'"
    "m_objective_gradient ?w = objective_gradient'"
    "m_constraints ?w = constraints'"
    "m_constraints_jacobian ?w = constraints_jacobian'"
    "m_lagrangian_hessian ?w = lagrangian_hessian'"
    by (simp_all add: ProblemWrapper5_def)
  have throws: "returned (objective_hessian ?w x) = Inl bad_function_call"
    by (simp add: returned_evaluation unset invoke_nullptr)
  have others: "returned (objective ?w x) = Inl bad_function_call \<Longrightarrow> objective' = nullptr"
    "returned (objective_gradient ?w x) = Inl bad_function_call \<Longrightarrow>
       objective_gradient' = nullptr"
    "returned (constraints ?w x) = Inl bad_function_call \<Longrightarrow> constraints' = nullptr"
    "returned (constraints_jacobian ?w x z) = Inl bad_function_call \<Longrightarrow>
       constraints_jacobian' = nullptr"
    "returned (lagrangian_hessian ?w x z) = Inl bad_function_call \<Longrightarrow>
       lagrangian_hessian' = nullptr"
    by (simp_all add: returned_evaluation stored invoke_throws_iff)
  from throws others show ?thesis
    unfolding Let_def by auto
qed

theorem five_handle_unset_failure_witness:
  "callable example_objective \<noteq> nullptr \<and>
   callable example_objective_gradient \<noteq> nullptr \<and>
   callable example_constraints \<noteq> nullptr \<and>
   callable example_constraints_jacobian \<noteq> nullptr \<and>
   callable example_lagrangian_hessian \<noteq> nullptr \<and>
   returned (objective_hessian example_problem (Vector [1, 1])) = Inl bad_function_call \<and>
   returned (objective example_problem (Vector [1, 1])) \<noteq> Inl bad_function_call \<and>
   returned (objective_gradient example_problem (Vector [1, 1])) \<noteq> Inl bad_function_call \<and>
   returned (constraints example_problem (Vector [1, 1])) \<noteq> Inl bad_function_call \<and>
   returned (constraints_jacobian example_problem (Vector [1, 1]) (Vector [0, 0]))
     \<noteq> Inl bad_function_call \<and>
   returned (lagrangian_hessian example_problem (Vector [1, 1]) (Vector [0, 0]))
     \<noteq> Inl bad_function_call"
proof -
  have supplied: "callable example_objective \<noteq> nullptr"
    "callable example_objective_gradient \<noteq> nullptr"
    "callable example_constraints \<noteq> nullptr"
    "callable example_constraints_jacobian \<noteq> nullptr"
    "callable example_lagrangian_hessian \<noteq> nullptr"
    by simp_all
  from five_handle_unset_failure [of "callable example_objective"
      "callable example_objective_gradient" "callable example_constraints"
      "callable example_constraints_jacobian" "callable example_lagrangian_hessian"
      "Vector [1, 1]" "Vector [0, 0]", unfolded Let_def, folded example_problem_def] supplied
  show ?thesis
    by blast
qed

subsection \<open>Accessors\<close>

text \<open>
  C3. For each of the six operations, the getter called after the setter was called
  with a handle returns that handle, whatever the handle is.
\<close>

theorem setter_getter_roundtrip:
  "returned (objective_get (after (objective_set this objective'))) = objective' \<and>
   returned (objective_gradient_get (after (objective_gradient_set this objective_gradient'))) = objective_gradient' \<and>
   returned (objective_hessian_get (after (objective_hessian_set this objective_hessian'))) = objective_hessian' \<and>
   returned (constraints_get (after (constraints_set this constraints'))) = constraints' \<and>
   returned (constraints_jacobian_get (after (constraints_jacobian_set this constraints_jacobian'))) = constraints_jacobian' \<and>
   returned (lagrangian_hessian_get (after (lagrangian_hessian_set this lagrangian_hessian'))) = lagrangian_hessian'"
  by (simp add: returned_getter after_setter)

text \<open>
  C4. Calling the setter of one operation with a new handle makes the evaluations of
  that operation go to the new handle, and leaves the stored handles and the evaluation
  results of the other five operations as they were.
\<close>

theorem setter_frame:
  "(let this' = after (objective_set this objective') in
      returned (objective this' x) = invoke objective' x \<and>
      returned (objective_gradient_get this') = returned (objective_gradient_get this) \<and>
      returned (objective_hessian_get this') = returned (objective_hessian_get this) \<and>
      returned (constraints_get this') = returned (constraints_get this) \<and>
      returned (constraints_jacobian_get this') = returned (constraints_jacobian_get this) \<and>
      returned (lagrangian_hessian_get this') = returned (lagrangian_hessian_get this) \<and>
      returned (objective_gradient this' x) = returned (objective_gradient this x) \<and>
      returned (objective_hessian this' x) = returned (objective_hessian this x) \<and>
      returned (constraints this' x) = returned (constraints this x) \<and>
      returned (constraints_jacobian this' x z) = returned (constraints_jacobian this x z) \<and>
      returned (lagrangian_hessian this' x z) = returned (lagrangian_hessian this x z)) \<and>
   (let this' = after (objective_gradient_set this objective_gradient') in
      returned (objective_gradient this' x) = invoke objective_gradient' x \<and>
      returned (objective_get this') = returned (objective_get this) \<and>
      returned (objective_hessian_get this') = returned (objective_hessian_get this) \<and>
      returned (constraints_get this') = returned (constraints_get this) \<and>
      returned (constraints_jacobian_get this') = returned (constraints_jacobian_get this) \<and>
      returned (lagrangian_hessian_get this') = returned (lagrangian_hessian_get this) \<and>
      returned (objective this' x) = returned (objective this x) \<and>
      returned (objective_hessian this' x) = returned (objective_hessian this x) \<and>
      returned (constraints this' x) = returned (constraints this x) \<and>
      returned (constraints_jacobian this' x z) = returned (constraints_jacobian this x z) \<and>
      returned (lagrangian_hessian this' x z) = returned (lagrangian_hessian this x z)) \<and>
   (let this' = after (objective_hessian_set this objective_hessian') in
      returned (objective_hessian this' x) = invoke objective_hessian' x \<and>
      returned (objective_get this') = returned (objective_get this) \<and>
      returned (objective_gradient_get this') = returned (objective_gradient_get this) \<and>
      returned (constraints_get this') = returned (constraints_get this) \<and>
      returned (constraints_jacobian_get this') = returned (constraints_jacobian_get this) \<and>
      returned (lagrangian_hessian_get this') = returned (lagrangian_hessian_get this) \<and>
      returned (objective this' x) = returned (objective this x) \<and>
      returned (objective_gradient this' x) = returned (objective_gradient this x) \<and>
      returned (constraints this' x) = returned (constraints this x) \<and>
      returned (constraints_jacobian this' x z) = returned (constraints_jacobian this x z) \<and>
      returned (lagrangian_hessian this' x z) = returned (lagrangian_hessian this x z)) \<and>
   (let this' = after (constraints_set this constraints') in
      returned (constraints this' x) = invoke constraints' x \<and>
      returned (objective_get this') = returned (objective_get this) \<and>
      returned (objective_gradient_get this') = returned (objective_gradient_get this) \<and>
      returned (objective_hessian_get this') = returned (objective_hessian_get this) \<and>
      returned (constraints_jacobian_get this') = returned (constraints_jacobian_get this) \<and>
      returned (lagrangian_hessian_get this') = returned (lagrangian_hessian_get this) \<and>
      returned (objective this' x) = returned (objective this x) \<and>
      returned (objective_gradient this' x) = returned (objective_gradient this x) \<and>
      returned (objective_hessian this' x) = returned (objective_hessian this x) \<and>
      returned (constraints_jacobian this' x z) = returned (constraints_jacobian this x z) \<and>
      returned (lagrangian_hessian this' x z) = returned (lagrangian_hessian this x z)) \<and>
   (let this' = after (constraints_jacobian_set this constraints_jacobian') in
      returned (constraints_jacobian this' x z) = invoke constraints_jacobian' (x, z) \<and>
      returned (objective_get this') = returned (objective_get this) \<and>
      returned (objective_gradient_get this') = returned (objective_gradient_get this) \<and>
      returned (objective_hessian_get this') = returned (objective_hessian_get this) \<and>
      returned (constraints_get this') = returned (constraints_get this) \<and>
      returned (lagrangian_hessian_get this') = returned (lagrangian_hessian_get this) \<and>
      returned (objective this' x) = returned (objective this x) \<and>
      returned (objective_gradient this' x) = returned (objective_gradient this x) \<and>
      returned (objective_hessian this' x) = returned (objective_hessian this x) \<and>
      returned (constraints this' x) = returned (constraints this x) \<and>
      returned (lagrangian_hessian this' x z) = returned (lagrangian_hessian this x z)) \<and>
   (let this' = after (lagrangian_hessian_set this lagrangian_hessian') in
      returned (lagrangian_hessian this' x z) = invoke lagrangian_hessian' (x, z) \<and>
      returned (objective_get this') = returned (objective_get this) \<and>
      returned (objective_gradient_get this') = returned (objective_gradient_get this) \<and>
      returned (objective_hessian_get this') = returned (objective_hessian_get this) \<and>
      returned (constraints_get this') = returned (constraints_get this) \<and>
      returned (constraints_jacobian_get this') = returned (constraints_jacobian_get this) \<and>
      returned (objective this' x) = returned (objective this x) \<and>
      returned (objective_gradient this' x) = returned (objective_gradient this x) \<and>
      returned (objective_hessian this' x) = returned (objective_hessian this x) \<and>
      returned (constraints this' x) = returned (constraints this x) \<and>
      returned (constraints_jacobian this' x z) = returned (constraints_jacobian this x z))"
  unfolding Let_def after_setter
  by (intro conjI; simp add: returned_getter returned_evaluation)

text \<open>
  C9. Querying never fails: the getter of an operation whose handle was not supplied
  (the objective Hessian after the five-handle constructor) or was replaced by an empty
  one returns the empty handle and leaves the object alone; it is the evaluation of that
  operation which throws.
\<close>

theorem getter_of_unset_handle:
  "(let this = ProblemWrapper5 objective' objective_gradient' constraints'
               constraints_jacobian' lagrangian_hessian' in
      returned (objective_hessian_get this) = nullptr \<and>
      after (objective_hessian_get this) = this \<and>
      returned (objective_hessian this x) = Inl bad_function_call) \<and>
   (let this' = after (objective_set this nullptr) in
      returned (objective_get this') = nullptr \<and>
      after (objective_get this') = this' \<and>
      returned (objective this' x) = Inl bad_function_call) \<and>
   (let this' = after (objective_gradient_set this nullptr) in
      returned (objective_gradient_get this') = nullptr \<and>
      after (objective_gradient_get this') = this' \<and>
      returned (objective_gradient this' x) = Inl bad_function_call) \<and>
   (let this' = after (objective_hessian_set this nullptr) in
      returned (objective_hessian_get this') = nullptr \<and>
      after (objective_hessian_get this') = this' \<and>
      returned (objective_hessian this' x) = Inl bad_function_call) \<and>
   (let this' = after (constraints_set this nullptr) in
      returned (constraints_get this') = nullptr \<and>
      after (constraints_get this') = this' \<and>
      returned (constraints this' x) = Inl bad_function_call) \<and>
   (let this' = after (constraints_jacobian_set this nullptr) in
      returned (constraints_jacobian_get this') = nullptr \<and>
      after (constraints_jacobian_get this') = this' \<and>
      returned (constraints_jacobian this' x z) = Inl bad_function_call) \<and>
   (let this' = after (lagrangian_hessian_set this nullptr) in
      returned (lagrangian_hessian_get this') = nullptr \<and>
      after (lagrangian_hessian_get this') = this' \<and>
      returned (lagrangian_hessian this' x z) = Inl bad_function_call)"
proof -
  have five: "m_objective_hessian (ProblemWrapper5 objective' objective_gradient' constraints'
      constraints_jacobian' lagrangian_hessian') = nullptr"
    by (simp add: ProblemWrapper5_def)
  show ?thesis
    unfolding Let_def after_getter
    by (intro conjI; simp add: five returned_getter returned_evaluation after_setter
        invoke_nullptr)
qed

subsection \<open>Evaluations and the state of the invoked target\<close>


lemmas evaluation_st_defs =
  objective_st_def objective_gradient_st_def objective_hessian_st_def
  constraints_st_def constraints_jacobian_st_def lagrangian_hessian_st_def

lemma invoke_st_no_target: "invoke_st no_target args = (Inl bad_function_call, no_target)"
  by (simp add: invoke_st_def)

lemma invoke_st_has_target:
  "invoke_st (has_target t) args = (Inr (produces t args), has_target (becomes t args))"
  by (simp add: invoke_st_def)


lemma stateless_call:
  "produces (stateless f) args = Inr (f args)"
  "becomes (stateless f) args = stateless f"
  by (simp_all add: stateless_def)

lemma invoke_st_stateless:
  "invoke_st (has_target (stateless f)) args = (Inr (Inr (f args)), has_target (stateless f))"
  by (simp add: invoke_st_has_target stateless_call)



text \<open>
  The first model is the second restricted to targets that neither change nor throw:
  on an object of the first model seen as one of the second, every evaluation returns
  what it returns in the first model and leaves the object as it was.
\<close>

lemma invoke_st_with_state:
  "invoke_st (with_state f) args = (map_sum id Inr (invoke f args), with_state f)"
  by (cases f) (simp_all add: with_state_def invoke_def invoke_st_stateless invoke_st_no_target)

lemma first_model_is_stateless_case:
  "objective_st (ProblemWrapper_with_state this) x
     = (map_sum id Inr (returned (objective this x)), ProblemWrapper_with_state this)"
  "objective_gradient_st (ProblemWrapper_with_state this) x
     = (map_sum id Inr (returned (objective_gradient this x)), ProblemWrapper_with_state this)"
  "objective_hessian_st (ProblemWrapper_with_state this) x
     = (map_sum id Inr (returned (objective_hessian this x)), ProblemWrapper_with_state this)"
  "constraints_st (ProblemWrapper_with_state this) x
     = (map_sum id Inr (returned (constraints this x)), ProblemWrapper_with_state this)"
  "constraints_jacobian_st (ProblemWrapper_with_state this) x z
     = (map_sum id Inr (returned (constraints_jacobian this x z)), ProblemWrapper_with_state this)"
  "lagrangian_hessian_st (ProblemWrapper_with_state this) x z
     = (map_sum id Inr (returned (lagrangian_hessian this x z)), ProblemWrapper_with_state this)"
  by (simp_all add: evaluation_st_defs evaluation_defs ProblemWrapper_with_state_def
      invoke_st_with_state)







subsection \<open>The example scenario\<close>

text \<open>
  C6. The example problem, built from its five handles, evaluates at \<open>x = (1, 1)\<close> to
  objective \<open>2\<close>, gradient \<open>(2, 2)\<close>, constraints \<open>(0, 0)\<close>, the identity as Jacobian
  and twice the identity as Hessian of the Lagrangian, the last two for every dual
  vector \<open>z\<close>. The same holds when the six-handle constructor is given these handles
  and any handle \<open>h\<close> for the objective Hessian.
\<close>

theorem example_scenario:
  "(returned (objective example_problem (Vector [1, 1])) = Inr 2 \<and>
    returned (objective_gradient example_problem (Vector [1, 1])) = Inr (Vector [2, 2]) \<and>
    returned (constraints example_problem (Vector [1, 1])) = Inr (Vector [0, 0]) \<and>
    returned (constraints_jacobian example_problem (Vector [1, 1]) z)
      = Inr (Matrix [[1, 0], [0, 1]]) \<and>
    returned (lagrangian_hessian example_problem (Vector [1, 1]) z)
      = Inr (Matrix [[2, 0], [0, 2]])) \<and>
   (let this = ProblemWrapper6 (callable example_objective)
        (callable example_objective_gradient) h (callable example_constraints)
        (callable example_constraints_jacobian) (callable example_lagrangian_hessian) in
      returned (objective this (Vector [1, 1])) = Inr 2 \<and>
      returned (objective_gradient this (Vector [1, 1])) = Inr (Vector [2, 2]) \<and>
      returned (constraints this (Vector [1, 1])) = Inr (Vector [0, 0]) \<and>
      returned (constraints_jacobian this (Vector [1, 1]) z) = Inr (Matrix [[1, 0], [0, 1]]) \<and>
      returned (lagrangian_hessian this (Vector [1, 1]) z) = Inr (Matrix [[2, 0], [0, 2]]))"
  (is "?five \<and> ?six")
proof -
  have f: "example_objective (Vector [1, 1]) = 2"
    by (simp add: example_objective_def example_point)
  have g: "example_objective_gradient (Vector [1, 1]) = Vector [2, 2]"
    by (simp add: example_objective_gradient_def example_point)
  have c: "example_constraints (Vector [1, 1]) = Vector [0, 0]"
    by (simp add: example_constraints_def example_point)
  have five: ?five
    by (simp add: returned_evaluation example_problem_members invoke_callable f g c
        example_constraints_jacobian_def example_lagrangian_hessian_def)
  have six: ?six
    unfolding Let_def
    by (simp add: returned_evaluation ProblemWrapper6_def invoke_callable f g c
        example_constraints_jacobian_def example_lagrangian_hessian_def)
  from five six show ?thesis ..
qed

subsection \<open>Dimensions\<close>

lemma constraints_jacobian_shape:
  fixes this :: "('real, 'n::finite, 'm::finite) ProblemWrapper"
  assumes "returned (constraints_jacobian this x z) = Inr A"
  shows "length (coeff_rows A) = CARD('m)"
    and "list_all (\<lambda>r. length r = CARD('n)) (coeff_rows A)"
  by (rule shape_coeff_rows)+

text \<open>
  C7. For \<open>N = 2\<close> and \<open>M = 2\<close>: every primal vector that \<open>objective\<close> can be given has
  two coefficients, and what it returns is the scalar (a value of the type \<open>'real\<close>) that
  the handle returns; every matrix that \<open>constraints_jacobian\<close> returns has two rows of
  two coefficients. The shapes come with the types of the arguments and results: the
  evaluations invoke the handle and check nothing.
\<close>

theorem dimension_consistency:
  fixes this :: "('real, 2, 2) ProblemWrapper"
    and x :: "('real, 2, 2) VectorN"
    and z :: "('real, 2, 2) VectorM"
  shows "length (coeffs x) = 2 \<and>
    (returned (objective this x) :: exception + 'real) = invoke (m_objective this) x \<and>
    returned (constraints_jacobian this x z) = invoke (m_constraints_jacobian this) (x, z) \<and>
    (\<forall>A. returned (constraints_jacobian this x z) = Inr A \<longrightarrow>
       length (coeff_rows A) = 2 \<and> list_all (\<lambda>r. length r = 2) (coeff_rows A))"
proof (intro conjI allI impI)
  show "length (coeffs x) = 2"
    using length_coeffs [of x] by simp
next
  show "returned (objective this x) = invoke (m_objective this) x"
    by (rule returned_evaluation)
next
  show "returned (constraints_jacobian this x z) = invoke (m_constraints_jacobian this) (x, z)"
    by (rule returned_evaluation)
next
  fix A
  assume A: "returned (constraints_jacobian this x z) = Inr A"
  from constraints_jacobian_shape(1) [OF A] show "length (coeff_rows A) = 2"
    by simp
  from constraints_jacobian_shape(2) [OF A] show "list_all (\<lambda>r. length r = 2) (coeff_rows A)"
    by simp
qed

theorem dimension_consistency_witness:
  "returned (constraints_jacobian example_problem (Vector [1, 1]) (Vector [0, 0]))
     = Inr (Matrix [[1, 0], [0, 1]]) \<and>
   length (coeff_rows (Matrix [[1, 0], [0, 1]] :: (real, 2, 2) MatrixJ)) = 2 \<and>
   list_all (\<lambda>r. length r = 2) (coeff_rows (Matrix [[1, 0], [0, 1]] :: (real, 2, 2) MatrixJ))"
proof -
  have J: "returned (constraints_jacobian example_problem (Vector [1, 1]) (Vector [0, 0]))
      = Inr (Matrix [[1, 0], [0, 1]])"
    by (simp add: returned_evaluation example_problem_members invoke_callable
        example_constraints_jacobian_def)
  with dimension_consistency [of "Vector [1, 1]" example_problem "Vector [0, 0]"]
  show ?thesis by simp
qed

subsection \<open>Copies are independent\<close>

text \<open>
  C10. Let a wrapper held by variable \<open>p\<close> be copied into another variable \<open>q\<close>. The
  copy stores the six handles of the original, and the original is as before. When a
  setter is then called on the copy, the copy stores the new handle and the original is
  still the object it was before the copy was made: it has the same six handles, and so
  the same evaluation results.
\<close>

theorem copy_independence:
  assumes "q \<noteq> p"
  shows "(let \<sigma>' = copy_construct \<sigma> q p in
      \<sigma>' p = \<sigma> p \<and>
      returned (objective_get (\<sigma>' q)) = returned (objective_get (\<sigma> p)) \<and>
      returned (objective_gradient_get (\<sigma>' q)) = returned (objective_gradient_get (\<sigma> p)) \<and>
      returned (objective_hessian_get (\<sigma>' q)) = returned (objective_hessian_get (\<sigma> p)) \<and>
      returned (constraints_get (\<sigma>' q)) = returned (constraints_get (\<sigma> p)) \<and>
      returned (constraints_jacobian_get (\<sigma>' q)) = returned (constraints_jacobian_get (\<sigma> p)) \<and>
      returned (lagrangian_hessian_get (\<sigma>' q)) = returned (lagrangian_hessian_get (\<sigma> p)) \<and>
      (let \<sigma>'' = after (member_call \<sigma>' q (\<lambda>this. objective_set this objective')) in
         returned (objective_get (\<sigma>'' q)) = objective' \<and> \<sigma>'' p = \<sigma> p) \<and>
      (let \<sigma>'' = after (member_call \<sigma>' q (\<lambda>this. objective_gradient_set this objective_gradient')) in
         returned (objective_gradient_get (\<sigma>'' q)) = objective_gradient' \<and> \<sigma>'' p = \<sigma> p) \<and>
      (let \<sigma>'' = after (member_call \<sigma>' q (\<lambda>this. objective_hessian_set this objective_hessian')) in
         returned (objective_hessian_get (\<sigma>'' q)) = objective_hessian' \<and> \<sigma>'' p = \<sigma> p) \<and>
      (let \<sigma>'' = after (member_call \<sigma>' q (\<lambda>this. constraints_set this constraints')) in
         returned (constraints_get (\<sigma>'' q)) = constraints' \<and> \<sigma>'' p = \<sigma> p) \<and>
      (let \<sigma>'' = after (member_call \<sigma>' q (\<lambda>this. constraints_jacobian_set this constraints_jacobian')) in
         returned (constraints_jacobian_get (\<sigma>'' q)) = constraints_jacobian' \<and> \<sigma>'' p = \<sigma> p) \<and>
      (let \<sigma>'' = after (member_call \<sigma>' q (\<lambda>this. lagrangian_hessian_set this lagrangian_hessian')) in
         returned (lagrangian_hessian_get (\<sigma>'' q)) = lagrangian_hessian' \<and> \<sigma>'' p = \<sigma> p))"
proof -
  define \<sigma>' where "\<sigma>' = copy_construct \<sigma> q p"
  have original: "\<sigma>' p = \<sigma> p"
    using assms by (simp add: \<sigma>'_def copy_construct_def)
  have duplicate: "\<sigma>' q = ProblemWrapper_copy (\<sigma> p)"
    by (simp add: \<sigma>'_def copy_construct_def)
  have untouched: "after (member_call \<sigma>' q f) p = \<sigma> p"
    for f :: "('a, 'b, 'c) ProblemWrapper \<Rightarrow> unit \<times> ('a, 'b, 'c) ProblemWrapper"
    using assms original by (simp add: member_call_def)
  have written: "after (member_call \<sigma>' q f) q = after (f (\<sigma>' q))"
    for f :: "('a, 'b, 'c) ProblemWrapper \<Rightarrow> unit \<times> ('a, 'b, 'c) ProblemWrapper"
    by (simp add: member_call_def)
  show ?thesis
    unfolding Let_def \<sigma>'_def [symmetric]
    by (simp add: original duplicate untouched written ProblemWrapper_copy_def
        returned_getter after_setter)
qed

theorem copy_independence_witness:
  "(1::nat) \<noteq> 0 \<and>
   returned (objective_get (copy_construct (\<lambda>v. example_problem) 1 0 1))
     = callable example_objective \<and>
   after (member_call (copy_construct (\<lambda>v. example_problem) 1 0) 1
       (\<lambda>this. objective_set this nullptr)) 0 = example_problem \<and>
   returned (objective_get (after (member_call (copy_construct (\<lambda>v. example_problem) 1 0) 1
       (\<lambda>this. objective_set this nullptr)) 1)) = nullptr"
proof -
  have neq: "(1::nat) \<noteq> 0" by simp
  have orig: "returned (objective_get example_problem) = callable example_objective"
    by (simp add: returned_getter example_problem_members)
  from copy_independence [OF neq, of "\<lambda>v. example_problem" nullptr nullptr nullptr nullptr
      nullptr nullptr] neq orig
  show ?thesis by (simp add: Let_def)
qed

end
